theory Spec2Isabelle
  imports Complex_Main
begin

section \<open>JavaScript values used by app.ts\<close>

text \<open>
  A JavaScript Number is NaN, one of the two infinities, or a finite double. Every finite
  double is a rational, so finite Numbers are carried as rationals. Comparison and strict
  equality are exact on this representation. The two zeros are one value here: the program
  only compares, adds and divides, and \<open>+0\<close> and \<open>-0\<close> are equal for \<open><\<close>, \<open>>\<close>
  and \<open>===\<close>. Sums and quotients are not rounded to double precision; for the
  integer arguments that the request handler passes to \<open>paginateData\<close> and arrays
  shorter than \<open>2^32\<close> the rounding changes neither a clamped slice bound nor the ceiling.
\<close>

datatype jsnum = NaN | NegInf | Fin rat | PosInf

text \<open>The relational operators \<open>a > b\<close> and \<open>a < b\<close> on Numbers: false when an operand is NaN.\<close>

fun js_lt :: "jsnum \<Rightarrow> jsnum \<Rightarrow> bool" where
  "js_lt NaN _ = False"
| "js_lt _ NaN = False"
| "js_lt (Fin a) (Fin b) = (a < b)"
| "js_lt NegInf NegInf = False"
| "js_lt NegInf _ = True"
| "js_lt _ NegInf = False"
| "js_lt PosInf _ = False"
| "js_lt _ PosInf = True"

definition js_gt :: "jsnum \<Rightarrow> jsnum \<Rightarrow> bool" where
  "js_gt a b = js_lt b a"

text \<open>\<open>a + b\<close> on Numbers.\<close>

fun js_add :: "jsnum \<Rightarrow> jsnum \<Rightarrow> jsnum" where
  "js_add NaN _ = NaN"
| "js_add _ NaN = NaN"
| "js_add (Fin a) (Fin b) = Fin (a + b)"
| "js_add PosInf NegInf = NaN"
| "js_add NegInf PosInf = NaN"
| "js_add PosInf _ = PosInf"
| "js_add _ PosInf = PosInf"
| "js_add NegInf _ = NegInf"
| "js_add _ NegInf = NegInf"

text \<open>\<open>a / b\<close> on Numbers (a zero divisor is taken as \<open>+0\<close>).\<close>

fun js_div :: "jsnum \<Rightarrow> jsnum \<Rightarrow> jsnum" where
  "js_div NaN _ = NaN"
| "js_div _ NaN = NaN"
| "js_div (Fin a) (Fin b) =
     (if b = 0 then (if a = 0 then NaN else if 0 < a then PosInf else NegInf)
      else Fin (a / b))"
| "js_div (Fin a) _ = Fin 0"
| "js_div PosInf (Fin b) = (if 0 \<le> b then PosInf else NegInf)"
| "js_div NegInf (Fin b) = (if 0 \<le> b then NegInf else PosInf)"
| "js_div _ _ = NaN"

text \<open>\<open>Math.ceil\<close>.\<close>

fun Math_ceil :: "jsnum \<Rightarrow> jsnum" where
  "Math_ceil (Fin a) = Fin (of_int \<lceil>a\<rceil>)"
| "Math_ceil x = x"

text \<open>Truthiness of a Number, and \<open>a || d\<close> with a Number on the left.\<close>

fun truthy_num :: "jsnum \<Rightarrow> bool" where
  "truthy_num NaN = False"
| "truthy_num (Fin a) = (a \<noteq> 0)"
| "truthy_num _ = True"

definition or_default :: "jsnum \<Rightarrow> jsnum \<Rightarrow> jsnum" where
  "or_default a d = (if truthy_num a then a else d)"

text \<open>
  The abstract operation ToIntegerOrInfinity of ECMA-262, which \<open>Array.prototype.slice\<close> and
  the Date constructor apply to a Number argument: NaN becomes 0, a finite value is
  truncated toward zero.
\<close>

datatype extint = MinusInfinity | Integer int | PlusInfinity

definition trunc_toward_zero :: "rat \<Rightarrow> int" where
  "trunc_toward_zero a = (if 0 \<le> a then \<lfloor>a\<rfloor> else \<lceil>a\<rceil>)"

fun ToIntegerOrInfinity :: "jsnum \<Rightarrow> extint" where
  "ToIntegerOrInfinity NaN = Integer 0"
| "ToIntegerOrInfinity PosInf = PlusInfinity"
| "ToIntegerOrInfinity NegInf = MinusInfinity"
| "ToIntegerOrInfinity (Fin a) = Integer (trunc_toward_zero a)"

text \<open>
  \<open>Array.prototype.slice(start, end)\<close>: a negative relative index counts from the end of the
  array, and both bounds are clamped to \<open>[0, len]\<close>.
\<close>

fun relativeIndex :: "nat \<Rightarrow> extint \<Rightarrow> nat" where
  "relativeIndex len MinusInfinity = 0"
| "relativeIndex len PlusInfinity = len"
| "relativeIndex len (Integer i) =
     (if i < 0 then nat (max (int len + i) 0) else nat (min i (int len)))"

definition slice :: "'a list \<Rightarrow> jsnum \<Rightarrow> jsnum \<Rightarrow> 'a list" where
  "slice xs start stop =
     (let len = length xs;
          k = relativeIndex len (ToIntegerOrInfinity start);
          final = relativeIndex len (ToIntegerOrInfinity stop)
      in take (final - k) (drop k xs))"

text \<open>A value of type \<open>number | string\<close>, with \<open>typeof\<close> and strict equality \<open>===\<close>.\<close>

datatype jsval = JNum jsnum | JStr string

fun typeof :: "jsval \<Rightarrow> string" where
  "typeof (JNum _) = ''number''"
| "typeof (JStr _) = ''string''"

fun strict_eq :: "jsval \<Rightarrow> jsval \<Rightarrow> bool" where
  "strict_eq (JNum a) (JNum b) = (a \<noteq> NaN \<and> b \<noteq> NaN \<and> a = b)"
| "strict_eq (JStr s) (JStr t) = (s = t)"
| "strict_eq _ _ = False"

text \<open>The fields typed \<open>any\<close> are JSON values that the program passes through unread.\<close>

datatype json = JNull | JBool bool | JNumber jsnum | JString string
  | JArray "json list" | JObject "(string \<times> json) list"

section \<open>Data model (app.ts, lines 22 to 50)\<close>

record QuestionType =
  q_id :: string
  q_name :: string
  q_type :: string
  q_value :: jsval

record SubmissionType =
  submissionId :: string
  submissionTime :: string
  lastUpdatedAt :: string
  questions :: "QuestionType list"
  calculations :: "json list"
  urlParameters :: "json list"
  quiz :: json
  documents :: "json list"

text \<open>
  The condition of a clause is kept as the string the request carries: the \<open>switch\<close> of the
  filter has a \<open>default\<close> branch for a tag outside the four of the type.
\<close>

record FilterClauseType =
  c_id :: string
  c_condition :: string
  c_value :: jsval

record ReturnType =
  responses :: "SubmissionType list"
  totalResponses :: nat
  pageCount :: jsnum

section \<open>paginateData (app.ts, lines 52 to 67)\<close>

definition paginateData :: "SubmissionType list \<Rightarrow> jsnum \<Rightarrow> jsnum \<Rightarrow> ReturnType" where
  "paginateData data limit offset =
     (let startIndex = offset;
          endIndex = js_add offset limit;
          resps = slice data startIndex endIndex;
          total = length resps;
          pages = Math_ceil (js_div (Fin (of_nat (length data))) limit)
      in \<lparr> responses = resps, totalResponses = total, pageCount = pages \<rparr>)"

section \<open>The built-ins the filter calls\<close>

text \<open>
  What the JavaScript engine and the libraries contribute is a parameter of the model:
  \<^item> \<open>parseInt\<close> on the string of a query parameter;
  \<^item> \<open>stringToNumber\<close>, the conversion \<open>Number(s)\<close> of a string (NaN for a string that is
    no numeric literal);
  \<^item> \<open>dateParseOther\<close>, the result of \<open>Date.parse\<close> on a string that is not a calendar date
    in the form \<open>YYYY-MM-DD\<close> (other forms of the ISO format, and the formats an engine
    accepts on its own);
  \<^item> \<open>axiosGet\<close>, the outcome of the one upstream call, by URL and Authorization header
    (declared with the handler).
  Every theorem below holds for every choice of them.
\<close>

record builtins =
  parseInt :: "string \<Rightarrow> jsnum"
  stringToNumber :: "string \<Rightarrow> jsnum"
  dateParseOther :: "string \<Rightarrow> jsnum"

text \<open>\<open>Number(value)\<close> for a value of type \<open>number | string\<close>.\<close>

fun Number_js :: "builtins \<Rightarrow> jsval \<Rightarrow> jsnum" where
  "Number_js rt (JNum n) = n"
| "Number_js rt (JStr s) = stringToNumber rt s"

text \<open>
  Day arithmetic of ECMA-262 (DayFromYear, MakeDay) for the date-only form \<open>YYYY-MM-DD\<close>,
  which \<open>Date.parse\<close> reads as midnight UTC of that day.
\<close>

definition msPerDay :: int where
  "msPerDay = 86400000"

definition DayFromYear :: "int \<Rightarrow> int" where
  "DayFromYear y =
     365 * (y - 1970) + (y - 1969) div 4 - (y - 1901) div 100 + (y - 1601) div 400"

definition InLeapYear :: "int \<Rightarrow> bool" where
  "InLeapYear y = (y mod 4 = 0 \<and> (y mod 100 \<noteq> 0 \<or> y mod 400 = 0))"

definition DaysInMonth :: "int \<Rightarrow> nat \<Rightarrow> nat" where
  "DaysInMonth y m =
     (if m = 2 then (if InLeapYear y then 29 else 28)
      else if m = 4 \<or> m = 6 \<or> m = 9 \<or> m = 11 then 30 else 31)"

definition MakeDay :: "int \<Rightarrow> nat \<Rightarrow> nat \<Rightarrow> int" where
  "MakeDay y m d =
     DayFromYear y + int (sum_list (map (DaysInMonth y) [1..<m])) + int d - 1"

definition is_digit :: "char \<Rightarrow> bool" where
  "is_digit c = (48 \<le> (of_char c :: nat) \<and> (of_char c :: nat) \<le> 57)"

definition digit_value :: "char \<Rightarrow> nat" where
  "digit_value c = of_char c - 48"

definition decimal_value :: "string \<Rightarrow> nat" where
  "decimal_value cs = foldl (\<lambda>n c. 10 * n + digit_value c) 0 cs"

text \<open>The year, month and day fields of a string of the shape \<open>dddd-dd-dd\<close>.\<close>

fun date_fields :: "string \<Rightarrow> (nat \<times> nat \<times> nat) option" where
  "date_fields [y1, y2, y3, y4, a, m1, m2, b, d1, d2] =
     (if a = CHR ''-'' \<and> b = CHR ''-'' \<and> list_all is_digit [y1, y2, y3, y4, m1, m2, d1, d2]
      then Some (decimal_value [y1, y2, y3, y4], decimal_value [m1, m2], decimal_value [d1, d2])
      else None)"
| "date_fields _ = None"

text \<open>
  \<open>Date.parse\<close>: a month outside 01 to 12 or a day outside 01 to 31 is an illegal element
  value and gives NaN; a day of the calendar gives its time value; a day from 29 to 31
  that the month does not have is left to the engine.
\<close>

definition Date_parse :: "builtins \<Rightarrow> string \<Rightarrow> jsnum" where
  "Date_parse rt s =
     (case date_fields s of
        None \<Rightarrow> dateParseOther rt s
      | Some (y, m, d) \<Rightarrow>
          if m < 1 \<or> 12 < m \<or> d < 1 \<or> 31 < d then NaN
          else if d \<le> DaysInMonth (int y) m
            then Fin (of_int (MakeDay (int y) m d * msPerDay))
          else dateParseOther rt s)"

text \<open>TimeClip: a time value is an integer of magnitude at most \<open>8.64e15\<close>, or NaN.\<close>

fun TimeClip :: "jsnum \<Rightarrow> jsnum" where
  "TimeClip (Fin a) = (if 8640000000000000 < \<bar>a\<bar> then NaN else Fin (of_int (trunc_toward_zero a)))"
| "TimeClip _ = NaN"

text \<open>\<open>new Date(value).getTime()\<close> for a value of type \<open>number | string\<close>.\<close>

fun Date_getTime :: "builtins \<Rightarrow> jsval \<Rightarrow> jsnum" where
  "Date_getTime rt (JStr s) = TimeClip (Date_parse rt s)"
| "Date_getTime rt (JNum n) = TimeClip n"

section \<open>The response object\<close>

text \<open>
  Of the Express response the handler uses \<open>status\<close>, which stores the status code, and
  \<open>json\<close>, which sends the body with the stored code. A second \<open>json\<close> on a response
  already sent throws (the headers cannot be set again) and leaves what was sent in place.
  A computation that may throw returns the exception or its value, and the response as it
  is at that moment. The calls of \<open>console.error\<close> write a log only and are left out.
\<close>

datatype body = ErrorBody string | PageBody ReturnType

record Response =
  statusCode :: nat
  sent :: "(nat \<times> body) option"

datatype thrown = Error string | AxiosError "nat option" string

definition status :: "nat \<Rightarrow> Response \<Rightarrow> Response" where
  "status code res = res\<lparr>statusCode := code\<rparr>"

definition json_send :: "body \<Rightarrow> Response \<Rightarrow> (thrown + unit) \<times> Response" where
  "json_send b res =
     (case sent res of
        Some _ \<Rightarrow> (Inl (Error ''Cannot set headers after they are sent to the client''), res)
      | None \<Rightarrow> (Inr (), res\<lparr>sent := Some (statusCode res, b)\<rparr>))"

section \<open>The filter (app.ts, lines 126 to 164)\<close>

text \<open>
  The callback of \<open>every\<close> returns a boolean, or, from the branch of the type check, the
  response object that \<open>res.status(400).json(...)\<close> returns, which is truthy.
\<close>

datatype callback_result = Boolean bool | ResponseObject

fun truthy :: "callback_result \<Rightarrow> bool" where
  "truthy (Boolean b) = b"
| "truthy ResponseObject = True"

definition comparison_value :: "builtins \<Rightarrow> QuestionType \<Rightarrow> jsval \<Rightarrow> jsnum" where
  "comparison_value rt question v =
     (if q_type question = ''DatePicker'' then Date_getTime rt v else Number_js rt v)"

definition clause_callback ::
  "builtins \<Rightarrow> SubmissionType \<Rightarrow> FilterClauseType \<Rightarrow> Response
     \<Rightarrow> (thrown + callback_result) \<times> Response" where
  "clause_callback rt submission clause res =
     (case find (\<lambda>q. q_id q = c_id clause) (questions submission) of
        None \<Rightarrow> (Inr (Boolean False), res)
      | Some question \<Rightarrow>
          let filterValue = comparison_value rt question (q_value question);
              filterClause = comparison_value rt question (c_value clause)
          in if typeof (JNum filterValue) \<noteq> typeof (JNum filterClause)
             then (case json_send (ErrorBody (''Invalid filter type for '' @ q_id question))
                          (status 400 res) of
                     (Inl e, res') \<Rightarrow> (Inl e, res')
                   | (Inr _, res') \<Rightarrow> (Inr ResponseObject, res'))
             else if c_condition clause = ''equals''
               then (Inr (Boolean (strict_eq (q_value question) (c_value clause))), res)
             else if c_condition clause = ''does_not_equal''
               then (Inr (Boolean (\<not> strict_eq (q_value question) (c_value clause))), res)
             else if c_condition clause = ''greater_than''
               then (Inr (Boolean (js_gt filterValue filterClause)), res)
             else if c_condition clause = ''less_than''
               then (Inr (Boolean (js_lt filterValue filterClause)), res)
             else (Inr (Boolean False), res))"

text \<open>\<open>Array.prototype.every\<close>: stops at the first falsy result, and at an exception.\<close>

fun every ::
  "('a \<Rightarrow> Response \<Rightarrow> (thrown + callback_result) \<times> Response) \<Rightarrow> 'a list \<Rightarrow> Response
     \<Rightarrow> (thrown + bool) \<times> Response" where
  "every f [] res = (Inr True, res)"
| "every f (x # xs) res =
     (case f x res of
        (Inl e, res') \<Rightarrow> (Inl e, res')
      | (Inr v, res') \<Rightarrow> if truthy v then every f xs res' else (Inr False, res'))"

text \<open>\<open>Array.prototype.filter\<close>: keeps, in order, the elements whose callback result is true.\<close>

fun filter_js ::
  "('a \<Rightarrow> Response \<Rightarrow> (thrown + bool) \<times> Response) \<Rightarrow> 'a list \<Rightarrow> Response
     \<Rightarrow> (thrown + 'a list) \<times> Response" where
  "filter_js f [] res = (Inr [], res)"
| "filter_js f (x # xs) res =
     (case f x res of
        (Inl e, res') \<Rightarrow> (Inl e, res')
      | (Inr keep, res') \<Rightarrow>
          (case filter_js f xs res' of
             (Inl e, res'') \<Rightarrow> (Inl e, res'')
           | (Inr kept, res'') \<Rightarrow> (Inr (if keep then x # kept else kept), res'')))"

definition filteredSubmissions ::
  "builtins \<Rightarrow> FilterClauseType list \<Rightarrow> SubmissionType list \<Rightarrow> Response
     \<Rightarrow> (thrown + SubmissionType list) \<times> Response" where
  "filteredSubmissions rt filterClauses submissions res =
     filter_js (\<lambda>submission. every (clause_callback rt submission) filterClauses)
       submissions res"

section \<open>The request handler (app.ts, lines 69 to 185)\<close>

text \<open>
  The request as the handler reads it: the route parameter, the parsed JSON body (an array
  of clauses, or anything else), the Authorization header and the two query parameters,
  each absent or a string.
\<close>

datatype request_body = NotAnArray | ArrayBody "FilterClauseType list"

record Request =
  formId :: string
  reqBody :: request_body
  authorization :: "string option"
  limit_param :: "string option"
  offset_param :: "string option"

text \<open>
  The upstream answer: \<open>axios.get\<close> resolves with a status and a body, of which the handler
  reads \<open>message\<close> and \<open>responses\<close> (absent here when it is not an array), or rejects.
\<close>

record AxiosData =
  message :: "string option"
  data_responses :: "SubmissionType list option"

record AxiosResponse =
  ax_status :: nat
  ax_data :: AxiosData

datatype axios_outcome = Resolved AxiosResponse | Rejected thrown

type_synonym upstream = "string \<Rightarrow> string \<Rightarrow> axios_outcome"

text \<open>What a run of the handler leaves: the response, the exception it rejected with, if
  any, and the upstream calls it made (URL and Authorization header).\<close>

record HandlerResult =
  response :: Response
  rejection :: "thrown option"
  upstreamCalls :: "(string \<times> string) list"

fun decimal :: "nat \<Rightarrow> string" where
  "decimal n =
     (if n < 10 then [char_of (48 + n)] else decimal (n div 10) @ [char_of (48 + n mod 10)])"

text \<open>\<open>parseInt(param as string)\<close>: an absent parameter is converted to the string \<open>undefined\<close>.\<close>

definition parse_param :: "builtins \<Rightarrow> string option \<Rightarrow> jsnum" where
  "parse_param rt p = parseInt rt (case p of None \<Rightarrow> ''undefined'' | Some s \<Rightarrow> s)"

text \<open>The URL of the upstream call (line 108).\<close>

definition form_url :: "string \<Rightarrow> string" where
  "form_url f = ''https://api.fillout.com/v1/api/forms/'' @ f @ ''/submissions''"

text \<open>The body of the \<open>try\<close> block after the upstream call has answered (lines 112 to 166).\<close>

definition try_block ::
  "builtins \<Rightarrow> axios_outcome \<Rightarrow> FilterClauseType list \<Rightarrow> jsnum \<Rightarrow> jsnum \<Rightarrow> Response
     \<Rightarrow> (thrown + unit) \<times> Response" where
  "try_block rt answer filterClauses limit offset res =
     (case answer of
        Rejected e \<Rightarrow> (Inl e, res)
      | Resolved resp \<Rightarrow>
          if ax_status resp \<noteq> 200
          then (Inl (Error (case message (ax_data resp) of
                              None \<Rightarrow> ''Request failed with status code '' @ decimal (ax_status resp)
                            | Some m \<Rightarrow> if m = [] then ''Request failed with status code ''
                                                      @ decimal (ax_status resp) else m)), res)
          else (case data_responses (ax_data resp) of
                  None \<Rightarrow>
                    json_send (ErrorBody ''Filters must be nested in an array.'') (status 400 res)
                | Some submissions \<Rightarrow>
                    (case filteredSubmissions rt filterClauses submissions res of
                       (Inl e, res') \<Rightarrow> (Inl e, res')
                     | (Inr filtered, res') \<Rightarrow>
                         json_send (PageBody (paginateData filtered limit offset)) res')))"

text \<open>The \<open>catch\<close> block (lines 167 to 184): one response by the kind of the error, then the
  unconditional second one of lines 182 and 183.\<close>

definition catch_block :: "thrown \<Rightarrow> Response \<Rightarrow> (thrown + unit) \<times> Response" where
  "catch_block e res =
     (case (case e of
              AxiosError st msg \<Rightarrow>
                json_send (ErrorBody msg)
                  (status (case st of None \<Rightarrow> 500 | Some c \<Rightarrow> if c = 0 then 500 else c) res)
            | Error _ \<Rightarrow> json_send (ErrorBody ''Internal Server Error'') (status 500 res)) of
        (Inl e', res') \<Rightarrow> (Inl e', res')
      | (Inr _, res') \<Rightarrow> json_send (ErrorBody ''Internal Server Error'') (status 500 res'))"

definition finish :: "(string \<times> string) list \<Rightarrow> (thrown + unit) \<times> Response \<Rightarrow> HandlerResult" where
  "finish calls r =
     \<lparr> response = snd r,
       rejection = (case fst r of Inl e \<Rightarrow> Some e | Inr _ \<Rightarrow> None),
       upstreamCalls = calls \<rparr>"

definition handler :: "builtins \<Rightarrow> upstream \<Rightarrow> Request \<Rightarrow> HandlerResult" where
  "handler rt axiosGet req =
     (let res = \<lparr> statusCode = 200, sent = None \<rparr>;
          limit = or_default (parse_param rt (limit_param req)) (Fin 150);
          offset = or_default (parse_param rt (offset_param req)) (Fin 0)
      in case authorization req of
           None \<Rightarrow> finish [] (Inl (Error ''Please provide a valid API key.''), status 403 res)
         | Some authorizationHeader \<Rightarrow>
             if authorizationHeader = []
               then finish [] (Inl (Error ''Please provide a valid API key.''), status 403 res)
             else if formId req = []
               then finish [] (Inl (Error ''Please provide a valid form ID.''), status 400 res)
             else (case reqBody req of
                     NotAnArray \<Rightarrow>
                       finish [] (json_send (ErrorBody ''Invalid filter clauses - must be an array'')
                                    (status 400 res))
                   | ArrayBody filterClauses \<Rightarrow>
                       if filterClauses = []
                       then finish [] (json_send (ErrorBody ''Please provide atleast 1 filter.'')
                                         (status 400 res))
                       else
                         let url = form_url (formId req)
                         in finish [(url, authorizationHeader)]
                              (case try_block rt (axiosGet url authorizationHeader) filterClauses
                                      limit offset res of
                                 (Inl e, res') \<Rightarrow> catch_block e res'
                               | (Inr u, res') \<Rightarrow> (Inr u, res'))))"

section \<open>The properties of the specification, in its own words\<close>

text \<open>
  When a submission satisfies a clause, after section 4.2 of the specification: the answer
  whose identifier is the clause's target is located; without one the clause fails; with
  one, the condition of the clause decides, on the raw values for equals and
  does-not-equal and on the coerced values for greater-than and less-than; an unrecognised
  condition fails.
\<close>

definition spec_satisfies :: "builtins \<Rightarrow> SubmissionType \<Rightarrow> FilterClauseType \<Rightarrow> bool" where
  "spec_satisfies rt submission clause =
     (case find (\<lambda>q. q_id q = c_id clause) (questions submission) of
        None \<Rightarrow> False
      | Some question \<Rightarrow>
          if c_condition clause = ''equals''
            then strict_eq (q_value question) (c_value clause)
          else if c_condition clause = ''does_not_equal''
            then \<not> strict_eq (q_value question) (c_value clause)
          else if c_condition clause = ''greater_than''
            then js_gt (comparison_value rt question (q_value question))
                       (comparison_value rt question (c_value clause))
          else if c_condition clause = ''less_than''
            then js_lt (comparison_value rt question (q_value question))
                       (comparison_value rt question (c_value clause))
          else False)"

text \<open>The page of the specification: the elements of the list at the indices from
  \<open>off\<close> up to, and without, \<open>off + cnt\<close>.\<close>

definition spec_page :: "'a list \<Rightarrow> int \<Rightarrow> int \<Rightarrow> 'a list" where
  "spec_page xs cnt off =
     map (\<lambda>i. xs ! i) (filter (\<lambda>i. off \<le> int i \<and> int i < off + cnt) [0..<length xs])"

section \<open>Sample data\<close>

definition sample_question :: "string \<Rightarrow> string \<Rightarrow> jsval \<Rightarrow> QuestionType" where
  "sample_question i t v = \<lparr> q_id = i, q_name = ''Question'', q_type = t, q_value = v \<rparr>"

definition sample_submission :: "string \<Rightarrow> QuestionType list \<Rightarrow> SubmissionType" where
  "sample_submission i qs =
     \<lparr> submissionId = i, submissionTime = ''2024-02-27T19:37:08.228Z'',
       lastUpdatedAt = ''2024-02-27T19:37:08.228Z'', questions = qs, calculations = [],
       urlParameters = [], quiz = JObject [], documents = [] \<rparr>"

definition sample_clause :: "string \<Rightarrow> string \<Rightarrow> jsval \<Rightarrow> FilterClauseType" where
  "sample_clause i c v = \<lparr> c_id = i, c_condition = c, c_value = v \<rparr>"

text \<open>The built-ins on the strings the examples use.\<close>

definition sample_builtins :: builtins where
  "sample_builtins =
     \<lparr> parseInt = (\<lambda>s. if s = ''-1'' then Fin (- 1) else if s = ''1'' then Fin 1
                        else if s = ''2'' then Fin 2 else NaN),
       stringToNumber = (\<lambda>s. if s = ''5'' then Fin 5 else NaN),
       dateParseOther = (\<lambda>s. NaN) \<rparr>"

text \<open>An upstream that answers 200 with the given submissions.\<close>

definition sample_upstream :: "SubmissionType list \<Rightarrow> upstream" where
  "sample_upstream subs url auth =
     Resolved \<lparr> ax_status = 200,
                ax_data = \<lparr> message = None, data_responses = Some subs \<rparr> \<rparr>"

definition sample_request ::
  "string option \<Rightarrow> request_body \<Rightarrow> string option \<Rightarrow> string option \<Rightarrow> Request" where
  "sample_request auth b l off =
     \<lparr> formId = ''cLZojxk94ous'', reqBody = b, authorization = auth,
       limit_param = l, offset_param = off \<rparr>"

definition submission_a :: SubmissionType where
  "submission_a = sample_submission ''a'' [sample_question ''q1'' ''NumberInput'' (JNum (Fin 5))]"

definition submission_b :: SubmissionType where
  "submission_b = sample_submission ''b'' [sample_question ''q1'' ''NumberInput'' (JNum (Fin 7))]"

definition submission_c :: SubmissionType where
  "submission_c =
     sample_submission ''c'' [sample_question ''q2'' ''DatePicker'' (JStr ''2024-01-01'')]"

definition submission_d :: SubmissionType where
  "submission_d =
     sample_submission ''d'' [sample_question ''q2'' ''DatePicker'' (JStr ''2024-13-45'')]"

definition response0 :: Response where
  "response0 = \<lparr> statusCode = 200, sent = None \<rparr>"

lemmas sample_defs = sample_question_def sample_submission_def sample_clause_def
  sample_builtins_def sample_upstream_def sample_request_def submission_a_def submission_b_def
  submission_c_def submission_d_def response0_def

section \<open>The filter callback has no effect and never throws\<close>

lemma js_lt_NaN_right [simp]: "js_lt a NaN = False"
  by (cases a) simp_all

lemma clause_callback_pure:
  "clause_callback rt submission clause res =
     (Inr (Boolean (spec_satisfies rt submission clause)), res)"
  by (simp add: clause_callback_def spec_satisfies_def Let_def split: option.split)

lemma every_clause_callback:
  "every (clause_callback rt submission) cs res =
     (Inr (list_all (spec_satisfies rt submission) cs), res)"
  by (induction cs) (simp_all add: clause_callback_pure)

lemma filter_js_pure:
  "(\<And>x r. f x r = (Inr (p x), r)) \<Longrightarrow> filter_js f xs res = (Inr (filter p xs), res)"
  by (induction xs) simp_all

lemma filteredSubmissions_filter:
  "filteredSubmissions rt cs subs res =
     (Inr (filter (\<lambda>s. list_all (spec_satisfies rt s) cs) subs), res)"
  unfolding filteredSubmissions_def
  by (rule filter_js_pure) (rule every_clause_callback)

lemma callback_found:
  "find (\<lambda>q. q_id q = c_id clause) (questions submission) = Some question \<Longrightarrow>
     clause_callback rt submission clause res =
       (if c_condition clause = ''equals''
          then (Inr (Boolean (strict_eq (q_value question) (c_value clause))), res)
        else if c_condition clause = ''does_not_equal''
          then (Inr (Boolean (\<not> strict_eq (q_value question) (c_value clause))), res)
        else if c_condition clause = ''greater_than''
          then (Inr (Boolean (js_gt (comparison_value rt question (q_value question))
                                    (comparison_value rt question (c_value clause)))), res)
        else if c_condition clause = ''less_than''
          then (Inr (Boolean (js_lt (comparison_value rt question (q_value question))
                                    (comparison_value rt question (c_value clause)))), res)
        else (Inr (Boolean False), res))"
  by (simp add: clause_callback_def Let_def)

lemma find_None_not_satisfied:
  assumes "\<forall>q \<in> set (questions submission). q_id q \<noteq> c_id clause"
  shows "\<not> spec_satisfies rt submission clause"
proof -
  from assms have "find (\<lambda>q. q_id q = c_id clause) (questions submission) = None"
    by (simp add: find_None_iff)
  then show ?thesis
    by (simp add: spec_satisfies_def)
qed

section \<open>Dates of the examples\<close>

lemma trunc_of_int [simp]: "trunc_toward_zero (of_int i) = i"
  by (simp add: trunc_toward_zero_def)

lemma trunc_of_nat [simp]: "trunc_toward_zero (of_nat n) = int n"
  by (simp add: trunc_toward_zero_def)

lemma trunc_numeral [simp]: "trunc_toward_zero (numeral n) = numeral n"
  by (simp add: trunc_toward_zero_def)

lemma date_2024: "Date_parse rt ''2024-01-01'' = Fin 1704067200000"
  by (simp add: Date_parse_def is_digit_def decimal_value_def digit_value_def DaysInMonth_def
      InLeapYear_def MakeDay_def DayFromYear_def msPerDay_def)

lemma date_2023: "Date_parse rt ''2023-01-01'' = Fin 1672531200000"
  by (simp add: Date_parse_def is_digit_def decimal_value_def digit_value_def DaysInMonth_def
      InLeapYear_def MakeDay_def DayFromYear_def msPerDay_def)

lemma date_month_13: "Date_parse rt ''2024-13-45'' = NaN"
  by (simp add: Date_parse_def is_digit_def decimal_value_def digit_value_def)

section \<open>Slices and pages\<close>

lemma slice_nat:
  "slice xs (Fin (of_nat a)) (Fin (of_nat b)) = take (b - a) (drop a xs)"
  by (simp add: slice_def Let_def min_def)

lemma slice_int:
  "slice xs (Fin (of_int k)) (Fin (of_int e)) =
     take (relativeIndex (length xs) (Integer e) - relativeIndex (length xs) (Integer k))
       (drop (relativeIndex (length xs) (Integer k)) xs)"
  by (simp add: slice_def Let_def)

lemma filter_window:
  "filter (\<lambda>i. int a \<le> int i \<and> int i < int a + int l) [0..<n] = [min a n..<min (a + l) n]"
proof (rule sorted_distinct_set_unique)
  show "sorted (filter (\<lambda>i. int a \<le> int i \<and> int i < int a + int l) [0..<n])"
    by (rule sorted_wrt_filter) simp
qed auto

lemma take_drop_window:
  "take l (drop a xs) = map (\<lambda>i. xs ! i) [min a (length xs)..<min (a + l) (length xs)]"
proof -
  have "map (\<lambda>i. xs ! i) (take l (drop a [0..<length xs]))
          = take l (drop a (map (\<lambda>i. xs ! i) [0..<length xs]))"
    by (simp only: take_map drop_map)
  also have "\<dots> = take l (drop a xs)"
    by (simp only: map_nth)
  finally have "take l (drop a xs) = map (\<lambda>i. xs ! i) (take l (drop a [0..<length xs]))"
    by simp
  moreover have "take l (drop a [0..<length xs]) = [min a (length xs)..<min (a + l) (length xs)]"
    by (simp add: min_def)
  ultimately show ?thesis
    by simp
qed

lemma spec_page_take_drop:
  "spec_page xs (int l) (int a) = take l (drop a xs)"
  unfolding spec_page_def filter_window take_drop_window ..

lemma paginateData_nat:
  "paginateData data (Fin (of_nat l)) (Fin (of_nat a)) =
     \<lparr> responses = take l (drop a data),
       totalResponses = length (take l (drop a data)),
       pageCount = Math_ceil (js_div (Fin (of_nat (length data))) (Fin (of_nat l))) \<rparr>"
proof -
  have "slice data (Fin (of_nat a)) (Fin (of_nat a + of_nat l)) = take l (drop a data)"
    using slice_nat [of data a "a + l"] by simp
  then show ?thesis
    by (simp add: paginateData_def Let_def)
qed

lemma paginateData_int:
  "responses (paginateData data (Fin (of_int l)) (Fin (of_int k))) =
     take (relativeIndex (length data) (Integer (k + l)) - relativeIndex (length data) (Integer k))
       (drop (relativeIndex (length data) (Integer k)) data)"
  using slice_int [of data k "k + l"] by (simp add: paginateData_def Let_def)

section \<open>A request that passes validation and an upstream that answers 200\<close>

lemma handler_success:
  assumes "authorization req = Some a" and "a \<noteq> []" and "formId req \<noteq> []"
    and "reqBody req = ArrayBody cs" and "cs \<noteq> []"
    and "ax (form_url (formId req)) a = Resolved resp" and "ax_status resp = 200"
    and "data_responses (ax_data resp) = Some subs"
  shows "handler rt ax req =
     \<lparr> response = \<lparr> statusCode = 200,
                     sent = Some (200, PageBody (paginateData
                              (filter (\<lambda>s. list_all (spec_satisfies rt s) cs) subs)
                              (or_default (parse_param rt (limit_param req)) (Fin 150))
                              (or_default (parse_param rt (offset_param req)) (Fin 0)))) \<rparr>,
       rejection = None,
       upstreamCalls = [(form_url (formId req), a)] \<rparr>"
  using assms
  by (simp add: handler_def Let_def try_block_def filteredSubmissions_filter json_send_def
      finish_def)

section \<open>The claims\<close>

subsection \<open>C1: the filter keeps the submissions that satisfy every clause\<close>

text \<open>
  C1. For every list of submissions and every list of filter clauses (the non-empty ones
  among them), the filter returns without an exception and without touching the response,
  and a submission appears in the filtered result if and only if it is one of the
  submissions and satisfies every clause of the list.
\<close>

theorem filter_and_semantics:
  "\<exists>kept. filteredSubmissions rt filterClauses submissions res = (Inr kept, res)
      \<and> (\<forall>s. s \<in> set kept \<longleftrightarrow>
             s \<in> set submissions \<and> (\<forall>c \<in> set filterClauses. spec_satisfies rt s c))"
  by (simp add: filteredSubmissions_filter list_all_iff)

text \<open>C1 at an example: of two submissions, the clause \<open>q1 equals 5\<close> keeps the one whose
  answer is 5.\<close>

theorem filter_and_semantics_witness:
  "\<exists>kept. filteredSubmissions sample_builtins [sample_clause ''q1'' ''equals'' (JNum (Fin 5))]
             [submission_a, submission_b] response0 = (Inr kept, response0)
      \<and> submission_a \<in> set kept \<and> submission_b \<notin> set kept"
proof -
  let ?c = "sample_clause ''q1'' ''equals'' (JNum (Fin 5))"
  have a: "spec_satisfies sample_builtins submission_a ?c"
    by (simp add: spec_satisfies_def sample_defs)
  have b: "\<not> spec_satisfies sample_builtins submission_b ?c"
    by (simp add: spec_satisfies_def sample_defs)
  from filter_and_semantics [of sample_builtins "[?c]" "[submission_a, submission_b]" response0]
  obtain kept where
    k: "filteredSubmissions sample_builtins [?c] [submission_a, submission_b] response0
          = (Inr kept, response0)" and
    m: "\<And>s. s \<in> set kept \<longleftrightarrow>
          s \<in> set [submission_a, submission_b]
          \<and> (\<forall>c \<in> set [?c]. spec_satisfies sample_builtins s c)"
    by blast
  from m [of submission_a] a have "submission_a \<in> set kept" by simp
  moreover from m [of submission_b] b have "submission_b \<notin> set kept" by simp
  ultimately show ?thesis using k by blast
qed

subsection \<open>C2: the page, the page count and the count of responses\<close>

text \<open>
  C2, as amended. For every filtered list, every limit that is an integer of at least 1
  and every offset that is a non-negative integer, the returned page is the elements
  \<open>[offset, offset + limit)\<close> of the list (empty when the offset is at least its length), the
  page count is the ceiling of the length by the limit, and \<open>totalResponses\<close> is the number
  of items of the page.
\<close>

theorem paginateData_page:
  "0 < l \<Longrightarrow>
     responses (paginateData data (Fin (of_nat l)) (Fin (of_nat a))) = take l (drop a data)
   \<and> responses (paginateData data (Fin (of_nat l)) (Fin (of_nat a))) = spec_page data (int l) (int a)
   \<and> (length data \<le> a \<longrightarrow> responses (paginateData data (Fin (of_nat l)) (Fin (of_nat a))) = [])
   \<and> pageCount (paginateData data (Fin (of_nat l)) (Fin (of_nat a)))
       = Fin (of_int \<lceil>(of_nat (length data) :: rat) / of_nat l\<rceil>)
   \<and> totalResponses (paginateData data (Fin (of_nat l)) (Fin (of_nat a)))
       = length (responses (paginateData data (Fin (of_nat l)) (Fin (of_nat a))))"
  by (simp add: paginateData_nat spec_page_take_drop)

text \<open>C2 at an example: four submissions, limit 2, offset 1.\<close>

theorem paginateData_page_witness:
  "(0::nat) < 2
   \<and> responses (paginateData [submission_a, submission_b, submission_c, submission_d] (Fin 2) (Fin 1))
       = [submission_b, submission_c]
   \<and> pageCount (paginateData [submission_a, submission_b, submission_c, submission_d] (Fin 2) (Fin 1))
       = Fin 2
   \<and> totalResponses
        (paginateData [submission_a, submission_b, submission_c, submission_d] (Fin 2) (Fin 1)) = 2"
  using paginateData_page [of 2 "[submission_a, submission_b, submission_c, submission_d]" 1]
  by simp

text \<open>
  C2 as stated fails for a negative limit and for a negative offset, both of which
  \<open>parseInt\<close> yields and the handler passes on. With three submissions, limit \<open>-1\<close> and
  offset 0 the code slices \<open>(0, -1)\<close> and returns the first two, where the range
  \<open>[0, -1)\<close> is empty; with limit 150 and offset \<open>-1\<close> it slices \<open>(-1, 149)\<close> and returns the
  last one only, where the range \<open>[-1, 149)\<close> covers all three.
\<close>

theorem paginateData_negative_counterexample:
  "responses (paginateData [submission_a, submission_b, submission_c] (Fin (- 1)) (Fin 0))
     \<noteq> spec_page [submission_a, submission_b, submission_c] (- 1) 0
   \<and> responses (paginateData [submission_a, submission_b, submission_c] (Fin 150) (Fin (- 1)))
     \<noteq> spec_page [submission_a, submission_b, submission_c] 150 (- 1)"
  using paginateData_int [of "[submission_a, submission_b, submission_c]" "- 1" 0]
    paginateData_int [of "[submission_a, submission_b, submission_c]" 150 "- 1"]
  by (simp add: spec_page_def upt_rec)

subsection \<open>C3: an operand that coerces to NaN is not reported\<close>

text \<open>
  C3. The claim asks for a 400 when one operand fails to coerce to a number. The code
  compares \<open>typeof\<close> of the two coerced operands, which is \<open>number\<close> for NaN as well, so
  the answer \<open>2024-13-45\<close> of a date question, compared with \<open>2023-01-01\<close>, is NaN and the
  branch is not taken: the handler answers 200 with an empty page and the submission is
  left out without a word.
\<close>

theorem invalid_date_not_rejected:
  "handler sample_builtins (sample_upstream [submission_d])
     (sample_request (Some ''Bearer key'')
        (ArrayBody [sample_clause ''q2'' ''greater_than'' (JStr ''2023-01-01'')]) None None) =
     \<lparr> response = \<lparr> statusCode = 200,
                     sent = Some (200, PageBody \<lparr> responses = [], totalResponses = 0,
                                                  pageCount = Fin 0 \<rparr>) \<rparr>,
       rejection = None,
       upstreamCalls = [(form_url ''cLZojxk94ous'', ''Bearer key'')] \<rparr>"
proof -
  have "\<not> spec_satisfies sample_builtins submission_d
            (sample_clause ''q2'' ''greater_than'' (JStr ''2023-01-01''))"
    by (simp add: spec_satisfies_def sample_defs comparison_value_def date_month_13 js_gt_def)
  then show ?thesis
    using handler_success [where rt = sample_builtins and ax = "sample_upstream [submission_d]"
        and req = "sample_request (Some ''Bearer key'')
          (ArrayBody [sample_clause ''q2'' ''greater_than'' (JStr ''2023-01-01'')]) None None"
        and a = "''Bearer key''" and subs = "[submission_d]"]
    by (simp add: sample_request_def sample_upstream_def parse_param_def sample_builtins_def
        or_default_def paginateData_def slice_def Let_def)
qed

subsection \<open>C4: equals and does-not-equal compare the raw values\<close>

text \<open>
  C4. For every answer found for a clause, whatever its type tag and whatever the
  built-ins, the condition equals passes exactly when the stored value is strictly equal
  to the value of the clause, and does-not-equal exactly when it is not; the number 5 and
  the string \<open>5\<close> are not strictly equal.
\<close>

theorem equals_raw_identity:
  "find (\<lambda>q. q_id q = c_id clause) (questions submission) = Some question \<Longrightarrow>
     (c_condition clause = ''equals'' \<longrightarrow>
        clause_callback rt submission clause res =
          (Inr (Boolean (strict_eq (q_value question) (c_value clause))), res))
   \<and> (c_condition clause = ''does_not_equal'' \<longrightarrow>
        clause_callback rt submission clause res =
          (Inr (Boolean (\<not> strict_eq (q_value question) (c_value clause))), res))
   \<and> \<not> strict_eq (JNum (Fin 5)) (JStr ''5'')"
  by (simp add: callback_found)

text \<open>C4 at an example: the stored number 5 fails \<open>equals\<close> against the string \<open>5\<close>, although
  \<open>Number\<close> of that string is 5.\<close>

theorem equals_raw_identity_witness:
  "find (\<lambda>q. q_id q = c_id (sample_clause ''q1'' ''equals'' (JStr ''5''))) (questions submission_a)
     = Some (sample_question ''q1'' ''NumberInput'' (JNum (Fin 5)))
   \<and> clause_callback sample_builtins submission_a (sample_clause ''q1'' ''equals'' (JStr ''5''))
        response0 = (Inr (Boolean False), response0)
   \<and> Number_js sample_builtins (JStr ''5'') = Fin 5"
  using equals_raw_identity [of "sample_clause ''q1'' ''equals'' (JStr ''5'')" submission_a
      "sample_question ''q1'' ''NumberInput'' (JNum (Fin 5))" sample_builtins response0]
  by (simp add: sample_defs)

subsection \<open>C5: greater-than and less-than compare the coerced values\<close>

text \<open>
  C5. For every answer found for a clause, with both operands converted to time values
  when the type tag of the answer is \<open>DatePicker\<close> and to numbers otherwise, greater-than
  passes exactly when the converted answer is greater than the converted clause value, and
  less-than exactly when it is less. A date answer \<open>2024-01-01\<close> passes greater-than
  \<open>2023-01-01\<close>, and with the two values exchanged it fails.
\<close>

theorem comparison_coercion:
  "find (\<lambda>q. q_id q = c_id clause) (questions submission) = Some question \<Longrightarrow>
   filterValue = (if q_type question = ''DatePicker'' then Date_getTime rt (q_value question)
                  else Number_js rt (q_value question)) \<Longrightarrow>
   filterClause = (if q_type question = ''DatePicker'' then Date_getTime rt (c_value clause)
                   else Number_js rt (c_value clause)) \<Longrightarrow>
     (c_condition clause = ''greater_than'' \<longrightarrow>
        clause_callback rt submission clause res =
          (Inr (Boolean (js_gt filterValue filterClause)), res))
   \<and> (c_condition clause = ''less_than'' \<longrightarrow>
        clause_callback rt submission clause res =
          (Inr (Boolean (js_lt filterValue filterClause)), res))
   \<and> (q_type question = ''DatePicker'' \<and> c_condition clause = ''greater_than''
        \<and> q_value question = JStr ''2024-01-01'' \<and> c_value clause = JStr ''2023-01-01'' \<longrightarrow>
        clause_callback rt submission clause res = (Inr (Boolean True), res))
   \<and> (q_type question = ''DatePicker'' \<and> c_condition clause = ''greater_than''
        \<and> q_value question = JStr ''2023-01-01'' \<and> c_value clause = JStr ''2024-01-01'' \<longrightarrow>
        clause_callback rt submission clause res = (Inr (Boolean False), res))"
  by (simp add: callback_found comparison_value_def date_2023 date_2024 js_gt_def)

text \<open>C5 at an example: the two time values, and the clause on the date answer.\<close>

theorem comparison_coercion_witness:
  "find (\<lambda>q. q_id q = c_id (sample_clause ''q2'' ''greater_than'' (JStr ''2023-01-01'')))
       (questions submission_c)
     = Some (sample_question ''q2'' ''DatePicker'' (JStr ''2024-01-01''))
   \<and> Date_getTime sample_builtins (JStr ''2024-01-01'') = Fin 1704067200000
   \<and> Date_getTime sample_builtins (JStr ''2023-01-01'') = Fin 1672531200000
   \<and> clause_callback sample_builtins submission_c
        (sample_clause ''q2'' ''greater_than'' (JStr ''2023-01-01'')) response0
       = (Inr (Boolean True), response0)"
  using comparison_coercion [where clause = "sample_clause ''q2'' ''greater_than'' (JStr ''2023-01-01'')"
      and submission = submission_c
      and question = "sample_question ''q2'' ''DatePicker'' (JStr ''2024-01-01'')"
      and filterValue = "Fin 1704067200000" and filterClause = "Fin 1672531200000"
      and rt = sample_builtins and res = response0]
  by (simp add: sample_defs date_2023 date_2024 js_gt_def)

subsection \<open>C6: a request without a credential\<close>

text \<open>
  C6. The claim asks for a 403 answer whose body is a JSON object with one \<open>error\<close> field.
  For every request without an Authorization header (or with an empty one) the handler
  stores the status 403 and throws: it makes no upstream call and runs no filter, but it
  sends no body at all, where the validation branches next to it (lines 92 to 100) send
  \<open>{error: ...}\<close> with \<open>res.status(400).json\<close>.
\<close>

theorem missing_credential_throws:
  "authorization req = None \<or> authorization req = Some [] \<Longrightarrow>
     handler rt ax req =
       \<lparr> response = \<lparr> statusCode = 403, sent = None \<rparr>,
         rejection = Some (Error ''Please provide a valid API key.''),
         upstreamCalls = [] \<rparr>"
  by (auto simp add: handler_def Let_def finish_def status_def)

text \<open>C6 at an example: a request with no Authorization header.\<close>

theorem missing_credential_throws_witness:
  "authorization (sample_request None (ArrayBody []) None None) = None
   \<and> handler sample_builtins (sample_upstream []) (sample_request None (ArrayBody []) None None) =
       \<lparr> response = \<lparr> statusCode = 403, sent = None \<rparr>,
         rejection = Some (Error ''Please provide a valid API key.''),
         upstreamCalls = [] \<rparr>"
  using missing_credential_throws [of "sample_request None (ArrayBody []) None None"
      sample_builtins "sample_upstream []"]
  by (simp add: sample_request_def)

subsection \<open>C7: an empty array of clauses\<close>

text \<open>
  C7. The checks run in the order of section 4.1 of the specification: credential, form
  identifier, array, empty array. For every request that reaches the fourth check, that
  is, one that carries a non-empty Authorization header and a form identifier, and whose
  body is an empty array, the handler answers 400 with the body
  \<open>{error: "Please provide atleast 1 filter."}\<close> and makes no upstream call.
\<close>

theorem empty_filters_rejected:
  "authorization req = Some a \<Longrightarrow> a \<noteq> [] \<Longrightarrow> formId req \<noteq> [] \<Longrightarrow>
   reqBody req = ArrayBody [] \<Longrightarrow>
     handler rt ax req =
       \<lparr> response = \<lparr> statusCode = 400,
                       sent = Some (400, ErrorBody ''Please provide atleast 1 filter.'') \<rparr>,
         rejection = None,
         upstreamCalls = [] \<rparr>"
  by (simp add: handler_def Let_def finish_def status_def json_send_def)

text \<open>C7 at an example: a request with a credential and the body \<open>[]\<close>.\<close>

theorem empty_filters_rejected_witness:
  "handler sample_builtins (sample_upstream [])
     (sample_request (Some ''Bearer key'') (ArrayBody []) None None) =
       \<lparr> response = \<lparr> statusCode = 400,
                       sent = Some (400, ErrorBody ''Please provide atleast 1 filter.'') \<rparr>,
         rejection = None,
         upstreamCalls = [] \<rparr>"
  using empty_filters_rejected [of "sample_request (Some ''Bearer key'') (ArrayBody []) None None"
      "''Bearer key''" sample_builtins "sample_upstream []"]
  by (simp add: sample_request_def)

subsection \<open>C8: a clause on an identifier the submission does not have\<close>

text \<open>
  C8. For every submission and every clause whose target identifier is the identifier of
  none of the answers of the submission, the clause fails for the submission, and the
  submission is not in the filtered result of any list of clauses that contains the clause.
\<close>

theorem missing_field_exclusion:
  "\<forall>q \<in> set (questions submission). q_id q \<noteq> c_id clause \<Longrightarrow>
   clause \<in> set filterClauses \<Longrightarrow>
     clause_callback rt submission clause res = (Inr (Boolean False), res)
   \<and> (\<exists>kept. filteredSubmissions rt filterClauses submissions res = (Inr kept, res)
          \<and> submission \<notin> set kept)"
  using find_None_not_satisfied [of submission clause rt]
  by (auto simp add: clause_callback_pure filteredSubmissions_filter list_all_iff)

text \<open>C8 at an example: a clause on \<open>q1\<close> and a submission that answers \<open>q2\<close> only; the
  condition does-not-equal would pass on any answer found.\<close>

theorem missing_field_exclusion_witness:
  "find (\<lambda>q. q_id q = c_id (sample_clause ''q1'' ''does_not_equal'' (JNum (Fin 5))))
       (questions submission_c) = None
   \<and> clause_callback sample_builtins submission_c
        (sample_clause ''q1'' ''does_not_equal'' (JNum (Fin 5))) response0
       = (Inr (Boolean False), response0)
   \<and> (\<exists>kept. filteredSubmissions sample_builtins
                [sample_clause ''q1'' ''does_not_equal'' (JNum (Fin 5))]
                [submission_b, submission_c] response0 = (Inr kept, response0)
          \<and> submission_c \<notin> set kept)"
  using missing_field_exclusion [of submission_c "sample_clause ''q1'' ''does_not_equal'' (JNum (Fin 5))"
      "[sample_clause ''q1'' ''does_not_equal'' (JNum (Fin 5))]" sample_builtins response0
      "[submission_b, submission_c]"]
  by (simp add: sample_defs)

subsection \<open>C9: the type check never fires, and NaN fails both comparisons\<close>

text \<open>
  C9. For every answer and clause the two coerced operands are of type \<open>number\<close>, NaN
  included, so the callback returns a boolean, sends nothing and throws nothing: the
  branch of the type check is not reachable. When an answer is found, the condition is
  greater-than or less-than and one of the two coerced operands is NaN, the clause
  evaluates to false, and the submission is left out of the filtered result, which is
  returned without an error.
\<close>

theorem nan_comparison_excludes:
  "typeof (JNum (comparison_value rt question (q_value question))) = ''number''
   \<and> typeof (JNum (comparison_value rt question (c_value clause))) = ''number''
   \<and> (\<exists>b. clause_callback rt submission clause res = (Inr (Boolean b), res))
   \<and> (find (\<lambda>q. q_id q = c_id clause) (questions submission) = Some question
        \<and> (c_condition clause = ''greater_than'' \<or> c_condition clause = ''less_than'')
        \<and> (comparison_value rt question (q_value question) = NaN
             \<or> comparison_value rt question (c_value clause) = NaN) \<longrightarrow>
          clause_callback rt submission clause res = (Inr (Boolean False), res)
          \<and> (clause \<in> set filterClauses \<longrightarrow>
                (\<exists>kept. filteredSubmissions rt filterClauses submissions res = (Inr kept, res)
                   \<and> submission \<notin> set kept)))"
proof -
  have failed: "clause_callback rt submission clause res = (Inr (Boolean False), res)"
    if "find (\<lambda>q. q_id q = c_id clause) (questions submission) = Some question"
      and "c_condition clause = ''greater_than'' \<or> c_condition clause = ''less_than''"
      and "comparison_value rt question (q_value question) = NaN
           \<or> comparison_value rt question (c_value clause) = NaN"
    using that(2,3) by (auto simp add: callback_found [OF that(1)] js_gt_def)
  then have "\<not> spec_satisfies rt submission clause"
    if "find (\<lambda>q. q_id q = c_id clause) (questions submission) = Some question"
      and "c_condition clause = ''greater_than'' \<or> c_condition clause = ''less_than''"
      and "comparison_value rt question (q_value question) = NaN
           \<or> comparison_value rt question (c_value clause) = NaN"
    using that by (simp add: clause_callback_pure)
  with failed show ?thesis
    by (auto simp add: clause_callback_pure filteredSubmissions_filter list_all_iff)
qed

text \<open>C9 at an example: the date answer \<open>2024-13-45\<close> coerces to NaN, and the clause
  less-than \<open>2023-01-01\<close> leaves the submission out.\<close>

theorem nan_comparison_excludes_witness:
  "find (\<lambda>q. q_id q = c_id (sample_clause ''q2'' ''less_than'' (JStr ''2023-01-01'')))
       (questions submission_d)
     = Some (sample_question ''q2'' ''DatePicker'' (JStr ''2024-13-45''))
   \<and> comparison_value sample_builtins (sample_question ''q2'' ''DatePicker'' (JStr ''2024-13-45''))
        (JStr ''2024-13-45'') = NaN
   \<and> clause_callback sample_builtins submission_d
        (sample_clause ''q2'' ''less_than'' (JStr ''2023-01-01'')) response0
       = (Inr (Boolean False), response0)
   \<and> (\<exists>kept. filteredSubmissions sample_builtins
                [sample_clause ''q2'' ''less_than'' (JStr ''2023-01-01'')]
                [submission_d] response0 = (Inr kept, response0)
          \<and> submission_d \<notin> set kept)"
  using nan_comparison_excludes [of sample_builtins
      "sample_question ''q2'' ''DatePicker'' (JStr ''2024-13-45'')"
      "sample_clause ''q2'' ''less_than'' (JStr ''2023-01-01'')" submission_d response0
      "[sample_clause ''q2'' ''less_than'' (JStr ''2023-01-01'')]" "[submission_d]"]
  by (simp add: sample_defs comparison_value_def date_month_13)

subsection \<open>C10: a negative offset\<close>

text \<open>
  C10, as amended. For every request that passes validation, with an upstream answer 200,
  whose offset parameter parses to a negative integer \<open>k\<close> and whose limit is the integer
  \<open>l\<close>: the handler passes \<open>k\<close> to \<open>paginateData\<close> as it is, and the slice counts it from the
  end of the filtered list. With \<open>n\<close> the length of that list, the page is the elements
  from index \<open>max (n + k) 0\<close> up to the end index of the slice, which is \<open>min (k + l) n\<close>
  when \<open>k + l\<close> is not negative and \<open>max (n + k + l) 0\<close> otherwise. When \<open>n \<le> k + l\<close> the page
  is the last \<open>min (-k) n\<close> elements of the filtered list; otherwise it can be empty.
\<close>

theorem negative_offset_page:
  assumes "authorization req = Some a" and "a \<noteq> []" and "formId req \<noteq> []"
    and "reqBody req = ArrayBody cs" and "cs \<noteq> []"
    and "ax (form_url (formId req)) a = Resolved resp" and "ax_status resp = 200"
    and "data_responses (ax_data resp) = Some subs"
    and "parse_param rt (offset_param req) = Fin (of_int k)" and "k < 0"
    and "or_default (parse_param rt (limit_param req)) (Fin 150) = Fin (of_int l)"
    and "kept = filter (\<lambda>s. \<forall>c \<in> set cs. spec_satisfies rt s c) subs"
    and "start = nat (max (int (length kept) + k) 0)"
    and "stop = (if k + l < 0 then nat (max (int (length kept) + (k + l)) 0)
                 else nat (min (k + l) (int (length kept))))"
  shows "\<exists>page. sent (response (handler rt ax req)) = Some (200, PageBody page)
           \<and> page = paginateData kept (Fin (of_int l)) (Fin (of_int k))
           \<and> responses page = take (stop - start) (drop start kept)
           \<and> (int (length kept) \<le> k + l \<longrightarrow>
                responses page = drop (length kept - nat (- k)) kept)"
proof -
  have off: "or_default (parse_param rt (offset_param req)) (Fin 0) = Fin (of_int k)"
    using assms(9,10) by (simp add: or_default_def)
  have kept: "filter (\<lambda>s. list_all (spec_satisfies rt s) cs) subs = kept"
    using assms(12) by (simp add: list_all_iff)
  have sent: "sent (response (handler rt ax req)) =
      Some (200, PageBody (paginateData kept (Fin (of_int l)) (Fin (of_int k))))"
    using handler_success [where ax = ax and rt = rt and req = req, OF assms(1-8)]
    by (simp add: off kept assms(11))
  have page: "responses (paginateData kept (Fin (of_int l)) (Fin (of_int k))) =
      take (stop - start) (drop start kept)"
    using assms(10) by (simp add: paginateData_int assms(13,14))
  have "take (stop - start) (drop start kept) = drop (length kept - nat (- k)) kept"
    if "int (length kept) \<le> k + l"
  proof -
    from that assms(10) have "stop = length kept" and "start = length kept - nat (- k)"
      by (simp_all add: assms(13,14))
    then show ?thesis by simp
  qed
  with sent page show ?thesis by simp
qed

text \<open>C10 at an example: offset \<open>-1\<close> and the default limit 150 on two kept submissions give
  the last one.\<close>

theorem negative_offset_page_witness:
  "parse_param sample_builtins
     (offset_param (sample_request (Some ''Bearer key'')
        (ArrayBody [sample_clause ''q1'' ''greater_than'' (JNum (Fin 0))]) None (Some ''-1'')))
     = Fin (- 1)
   \<and> (\<exists>page. sent (response (handler sample_builtins
                 (sample_upstream [submission_a, submission_b])
                 (sample_request (Some ''Bearer key'')
                    (ArrayBody [sample_clause ''q1'' ''greater_than'' (JNum (Fin 0))])
                    None (Some ''-1''))))
               = Some (200, PageBody page)
          \<and> responses page = [submission_b])"
proof -
  let ?cl = "sample_clause ''q1'' ''greater_than'' (JNum (Fin 0))"
  let ?req = "sample_request (Some ''Bearer key'') (ArrayBody [?cl]) None (Some ''-1'')"
  let ?subs = "[submission_a, submission_b]"
  have off: "parse_param sample_builtins (offset_param ?req) = Fin (of_int (- 1))"
    by (simp add: parse_param_def sample_request_def sample_builtins_def)
  have lim: "or_default (parse_param sample_builtins (limit_param ?req)) (Fin 150)
               = Fin (of_int 150)"
    by (simp add: parse_param_def sample_request_def sample_builtins_def or_default_def)
  have kept: "?subs = filter (\<lambda>s. \<forall>c \<in> set [?cl]. spec_satisfies sample_builtins s c) ?subs"
    by (simp add: spec_satisfies_def sample_defs comparison_value_def js_gt_def)
  have "\<exists>page. sent (response (handler sample_builtins (sample_upstream ?subs) ?req))
                  = Some (200, PageBody page)
           \<and> page = paginateData ?subs (Fin (of_int 150)) (Fin (of_int (- 1)))
           \<and> responses page = take (2 - 1) (drop 1 ?subs)
           \<and> (int (length ?subs) \<le> - 1 + 150 \<longrightarrow>
                responses page = drop (length ?subs - nat (- (- 1))) ?subs)"
    by (rule negative_offset_page [where a = "''Bearer key''" and cs = "[?cl]"
          and resp = "\<lparr> ax_status = 200,
                          ax_data = \<lparr> message = None, data_responses = Some ?subs \<rparr> \<rparr>"
          and subs = ?subs, OF _ _ _ _ _ _ _ _ off _ lim kept])
       (simp_all add: sample_request_def sample_upstream_def)
  with off show ?thesis by auto
qed

text \<open>
  C10 as stated, that the page holds trailing elements and is not empty, fails: with
  offset \<open>-1\<close> and limit 1 the slice is \<open>(-1, 0)\<close>, whose start, the last index, is past its
  end, and the page is empty although both submissions are kept.
\<close>

theorem negative_offset_empty_page_counterexample:
  "parse_param sample_builtins
     (offset_param (sample_request (Some ''Bearer key'')
        (ArrayBody [sample_clause ''q1'' ''greater_than'' (JNum (Fin 0))])
        (Some ''1'') (Some ''-1'')))
     = Fin (- 1)
   \<and> filteredSubmissions sample_builtins [sample_clause ''q1'' ''greater_than'' (JNum (Fin 0))]
        [submission_a, submission_b] response0 = (Inr [submission_a, submission_b], response0)
   \<and> sent (response (handler sample_builtins (sample_upstream [submission_a, submission_b])
        (sample_request (Some ''Bearer key'')
           (ArrayBody [sample_clause ''q1'' ''greater_than'' (JNum (Fin 0))])
           (Some ''1'') (Some ''-1''))))
       = Some (200, PageBody \<lparr> responses = [], totalResponses = 0, pageCount = Fin 2 \<rparr>)"
proof -
  let ?cl = "sample_clause ''q1'' ''greater_than'' (JNum (Fin 0))"
  let ?req = "sample_request (Some ''Bearer key'') (ArrayBody [?cl]) (Some ''1'') (Some ''-1'')"
  let ?subs = "[submission_a, submission_b]"
  have off: "parse_param sample_builtins (offset_param ?req) = Fin (- 1)"
    by (simp add: parse_param_def sample_request_def sample_builtins_def)
  have lim: "parse_param sample_builtins (limit_param ?req) = Fin 1"
    by (simp add: parse_param_def sample_request_def sample_builtins_def)
  have sa: "spec_satisfies sample_builtins submission_a ?cl"
    by (simp add: spec_satisfies_def sample_defs comparison_value_def js_gt_def)
  have sb: "spec_satisfies sample_builtins submission_b ?cl"
    by (simp add: spec_satisfies_def sample_defs comparison_value_def js_gt_def)
  have page: "paginateData ?subs (Fin 1) (Fin (- 1))
                = \<lparr> responses = [], totalResponses = 0, pageCount = Fin 2 \<rparr>"
    by (simp add: paginateData_def slice_def Let_def trunc_toward_zero_def)
  have "sent (response (handler sample_builtins (sample_upstream ?subs) ?req))
          = Some (200, PageBody (paginateData ?subs (Fin 1) (Fin (- 1))))"
    using handler_success [where rt = sample_builtins and ax = "sample_upstream ?subs"
        and req = ?req and a = "''Bearer key''" and cs = "[?cl]" and subs = ?subs
        and resp = "\<lparr> ax_status = 200,
                        ax_data = \<lparr> message = None, data_responses = Some ?subs \<rparr> \<rparr>"]
    by (simp add: off lim sa sb or_default_def) (simp add: sample_request_def sample_upstream_def)
  with off page show ?thesis
    by (simp add: filteredSubmissions_filter sa sb)
qed

end
